theory Spec2Isabelle
  imports Complex_Main "HOL-Library.Char_ord" "HOL-Library.List_Lexorder" "HOL-Library.AList"
begin

section \<open>Expense tracker backend: period resolver, aggregator, budget evaluator\<close>

text \<open>
  A shallow embedding of \<^verbatim>\<open>backend/server.py\<close>: the helper \<^verbatim>\<open>get_date_range\<close>, the
  evaluator \<^verbatim>\<open>check_budget_alerts\<close> and the request handlers that call them.

  Conventions of the model.
  \<^item> Amounts (\<^verbatim>\<open>float\<close> in the source, "decimal" in the specification) are exact
    rationals: sums, quotients and comparisons are those of exact arithmetic, and the
    rounding of binary floating point is outside the model.
  \<^item> A collection of the document store is the list of its documents in store order;
    \<^verbatim>\<open>find\<close> filters it, \<^verbatim>\<open>to_list(n)\<close> keeps the first \<open>n\<close>, \<^verbatim>\<open>find_one\<close> is the first
    match, \<^verbatim>\<open>insert_one\<close> appends, \<^verbatim>\<open>update_one\<close> rewrites the first match.
  \<^item> The clock and the identifier generator are inputs: \<^verbatim>\<open>date.today()\<close>,
    \<^verbatim>\<open>datetime.utcnow()\<close> (microseconds, read as one instant per request) and the
    sequence of values that \<^verbatim>\<open>uuid.uuid4()\<close> returns.
  \<^item> Strings are compared as the store compares them, lexicographically by character
    code; dates are stored as \<^verbatim>\<open>YYYY-MM-DD\<close> strings.
  \<^item> A handler returns its outcome (an error or a response) together with the store
    after the request, so that what an error leaves behind is part of the result.
\<close>

subsection \<open>Calendar dates (\<^verbatim>\<open>datetime.date\<close>, \<^verbatim>\<open>timedelta(days=n)\<close>, \<^verbatim>\<open>str\<close>)\<close>

text \<open>
  The source relies on the library's date type: \<^verbatim>\<open>replace\<close>, adding and subtracting a
  number of days, \<^verbatim>\<open>weekday()\<close> (Monday is 0) and \<^verbatim>\<open>str\<close>. They are modelled on the
  proleptic Gregorian calendar, a day at a time. The library confines years to
  1..9999; the model's years are not bounded.
\<close>

record date =
  year :: nat
  month :: nat
  day :: nat

definition is_leap :: "nat \<Rightarrow> bool" where
  "is_leap y = (y mod 4 = 0 \<and> (y mod 100 \<noteq> 0 \<or> y mod 400 = 0))"

definition days_in_month :: "nat \<Rightarrow> nat \<Rightarrow> nat" where
  "days_in_month y m =
     (if m = 2 then (if is_leap y then 29 else 28)
      else if m = 4 \<or> m = 6 \<or> m = 9 \<or> m = 11 then 30
      else 31)"


definition next_day :: "date \<Rightarrow> date" where
  "next_day d =
     (if day d < days_in_month (year d) (month d) then d\<lparr>day := day d + 1\<rparr>
      else if month d < 12 then d\<lparr>month := month d + 1, day := 1\<rparr>
      else \<lparr>year = year d + 1, month = 1, day = 1\<rparr>)"

definition prev_day :: "date \<Rightarrow> date" where
  "prev_day d =
     (if 1 < day d then d\<lparr>day := day d - 1\<rparr>
      else if 1 < month d
        then d\<lparr>month := month d - 1, day := days_in_month (year d) (month d - 1)\<rparr>
      else \<lparr>year = year d - 1, month = 12, day = 31\<rparr>)"

fun add_days :: "date \<Rightarrow> nat \<Rightarrow> date" where
  "add_days d 0 = d"
| "add_days d (Suc n) = add_days (next_day d) n"

fun sub_days :: "date \<Rightarrow> nat \<Rightarrow> date" where
  "sub_days d 0 = d"
| "sub_days d (Suc n) = sub_days (prev_day d) n"

definition days_before_year :: "nat \<Rightarrow> nat" where
  "days_before_year y =
     (let p = y - 1 in p * 365 + p div 4 - p div 100 + p div 400)"

definition days_before_month :: "nat \<Rightarrow> nat \<Rightarrow> nat" where
  "days_before_month y m = sum_list (map (days_in_month y) [1..<m])"

definition toordinal :: "date \<Rightarrow> nat" where
  "toordinal d = days_before_year (year d) + days_before_month (year d) (month d) + day d"

definition weekday :: "date \<Rightarrow> nat" where
  "weekday d = (toordinal d + 6) mod 7"

fun digits10 :: "nat \<Rightarrow> string" where
  "digits10 n =
     (if n < 10 then [''0123456789'' ! n]
      else digits10 (n div 10) @ [''0123456789'' ! (n mod 10)])"

declare digits10.simps [simp del]

definition zero_pad :: "nat \<Rightarrow> string \<Rightarrow> string" where
  "zero_pad w s = replicate (w - length s) (CHR ''0'') @ s"

definition str_date :: "date \<Rightarrow> string" where
  "str_date d =
     zero_pad 4 (digits10 (year d)) @ ''-'' @ zero_pad 2 (digits10 (month d)) @ ''-'' @
     zero_pad 2 (digits10 (day d))"

subsection \<open>Period resolver (\<^verbatim>\<open>get_date_range\<close>)\<close>

text \<open>
  An optional string argument is \<open>None\<close> for Python's \<^verbatim>\<open>None\<close>; \<open>truthy\<close> is Python's truth
  value of such an argument (\<^verbatim>\<open>None\<close> and the empty string are false).
\<close>

definition truthy :: "string option \<Rightarrow> bool" where
  "truthy s = (case s of None \<Rightarrow> False | Some v \<Rightarrow> v \<noteq> [])"

definition get_date_range ::
  "date \<Rightarrow> string \<Rightarrow> string option \<Rightarrow> string option \<Rightarrow> string \<times> string" where
  "get_date_range today period custom_start custom_end =
     (if period = ''today'' then (str_date today, str_date today)
      else if period = ''week'' then
        (let start = sub_days today (weekday today);
             end_d = add_days start 6
         in (str_date start, str_date end_d))
      else if period = ''month'' then
        (let start = today\<lparr>day := 1\<rparr>;
             next_month = add_days (today\<lparr>day := 28\<rparr>) 4;
             end_d = sub_days next_month (day next_month)
         in (str_date start, str_date end_d))
      else if period = ''year'' then
        (let start = today\<lparr>month := 1, day := 1\<rparr>;
             end_d = today\<lparr>month := 12, day := 31\<rparr>
         in (str_date start, str_date end_d))
      else if period = ''custom'' \<and> truthy custom_start \<and> truthy custom_end then
        (the custom_start, the custom_end)
      else
        (let start = today\<lparr>day := 1\<rparr>;
             next_month = add_days (today\<lparr>day := 28\<rparr>) 4;
             end_d = sub_days next_month (day next_month)
         in (str_date start, str_date end_d)))"

subsection \<open>Documents and the store\<close>

text \<open>
  The documents are the models \<^verbatim>\<open>Expense\<close>, \<^verbatim>\<open>Budget\<close> and \<^verbatim>\<open>BudgetAlert\<close>; the field
  \<^verbatim>\<open>id\<close> is written \<open>id'\<close>. Timestamps are microseconds.
\<close>

datatype error = HTTPException nat string | ZeroDivisionError

record expense =
  id' :: string
  user_id :: string
  title :: string
  amount :: rat
  category :: string
  type :: string
  description :: "string option"
  date :: string
  created_at :: int

record budget =
  id' :: string
  user_id :: string
  category :: string
  limit_amount :: rat
  period :: string
  start_date :: string
  end_date :: string
  current_spent :: rat
  is_active :: bool
  created_at :: int

record budget_alert =
  id' :: string
  user_id :: string
  budget_id :: string
  message :: string
  alert_type :: string
  percentage :: rat
  created_at :: int
  is_read :: bool

record world =
  expenses :: "expense list"
  budgets :: "budget list"
  budget_alerts :: "budget_alert list"
  uuid_calls :: nat

text \<open>
  The inputs a request reads from outside the store: the local date, the UTC clock and
  the identifier generator, whose \<open>n\<close>-th call returns \<open>env_uuid4 env n\<close>.
\<close>

record env =
  env_today :: date
  env_utcnow :: int
  env_uuid4 :: "nat \<Rightarrow> string"

definition find_one :: "('a \<Rightarrow> bool) \<Rightarrow> 'a list \<Rightarrow> 'a option" where
  "find_one P xs = List.find P xs"

definition insert_one :: "'a \<Rightarrow> 'a list \<Rightarrow> 'a list" where
  "insert_one x xs = xs @ [x]"

fun update_one :: "('a \<Rightarrow> bool) \<Rightarrow> ('a \<Rightarrow> 'a) \<Rightarrow> 'a list \<Rightarrow> 'a list" where
  "update_one P f [] = []"
| "update_one P f (x # xs) = (if P x then f x # xs else x # update_one P f xs)"

definition timedelta_days :: "int \<Rightarrow> int" where
  "timedelta_days n = n * 86400000000"

definition truediv :: "rat \<Rightarrow> rat \<Rightarrow> error + rat" where
  "truediv a b = (if b = 0 then Inl ZeroDivisionError else Inr (a / b))"

subsection \<open>Rendering of amounts (\<^verbatim>\<open>:.2f\<close>, \<^verbatim>\<open>:.1f\<close>)\<close>

definition round_half_even :: "rat \<Rightarrow> int" where
  "round_half_even x =
     (let f = \<lfloor>x\<rfloor>; r = x - of_int f
      in if r < 1 / 2 then f else if 1 / 2 < r then f + 1
         else if even f then f else f + 1)"

definition format_fixed :: "nat \<Rightarrow> rat \<Rightarrow> string" where
  "format_fixed k x =
     (let n = nat (round_half_even (\<bar>x\<bar> * 10 ^ k))
      in (if x < 0 then ''-'' else []) @ digits10 (n div 10 ^ k) @ ''.'' @
         zero_pad k (digits10 (n mod 10 ^ k)))"

subsection \<open>Budget evaluator (\<^verbatim>\<open>check_budget_alerts\<close>)\<close>

text \<open>
  The expenses the evaluator fetches for one budget: the filter of the query, and the
  query with its \<^verbatim>\<open>to_list(1000)\<close>.
\<close>

definition matches_budget :: "string \<Rightarrow> budget \<Rightarrow> expense \<Rightarrow> bool" where
  "matches_budget uid b e =
     (expense.user_id e = uid \<and>
      expense.category e = budget.category b \<and>
      expense.type e = ''expense'' \<and>
      budget.start_date b \<le> expense.date e \<and>
      expense.date e \<le> budget.end_date b)"

definition budget_expenses :: "string \<Rightarrow> budget \<Rightarrow> expense list \<Rightarrow> expense list" where
  "budget_expenses uid b es = take 1000 (filter (matches_budget uid b) es)"

definition spent :: "string \<Rightarrow> budget \<Rightarrow> expense list \<Rightarrow> rat" where
  "spent uid b es = sum_list (map expense.amount (budget_expenses uid b es))"

definition percentage_of :: "rat \<Rightarrow> rat \<Rightarrow> error + rat" where
  "percentage_of s l =
     (if l > 0 then (case truediv s l of Inl e \<Rightarrow> Inl e | Inr q \<Rightarrow> Inr (q * 100))
      else Inr 0)"

definition recent_alert :: "env \<Rightarrow> string \<Rightarrow> string \<Rightarrow> budget_alert list \<Rightarrow> budget_alert option" where
  "recent_alert env bid kind als =
     find_one (\<lambda>a. budget_alert.budget_id a = bid \<and> budget_alert.alert_type a = kind \<and>
                    env_utcnow env - timedelta_days 1 \<le> budget_alert.created_at a) als"

definition exceeded_alert :: "env \<Rightarrow> string \<Rightarrow> budget \<Rightarrow> rat \<Rightarrow> rat \<Rightarrow> nat \<Rightarrow> budget_alert" where
  "exceeded_alert env uid b s p n =
     \<lparr>budget_alert.id' = env_uuid4 env n, budget_alert.user_id = uid,
      budget_id = budget.id' b,
      message = ''Budget exceeded for '' @ budget.category b @ ''! Spent $'' @
                format_fixed 2 s @ '' of $'' @ format_fixed 2 (budget.limit_amount b),
      alert_type = ''exceeded'', percentage = p,
      budget_alert.created_at = env_utcnow env, is_read = False\<rparr>"

definition warning_alert :: "env \<Rightarrow> string \<Rightarrow> budget \<Rightarrow> rat \<Rightarrow> rat \<Rightarrow> nat \<Rightarrow> budget_alert" where
  "warning_alert env uid b s p n =
     \<lparr>budget_alert.id' = env_uuid4 env n, budget_alert.user_id = uid,
      budget_id = budget.id' b,
      message = ''Budget warning for '' @ budget.category b @ ''! '' @ format_fixed 1 p @
                ''% spent ($'' @ format_fixed 2 s @ '' of $'' @
                format_fixed 2 (budget.limit_amount b) @ '')'',
      alert_type = ''warning'', percentage = p,
      budget_alert.created_at = env_utcnow env, is_read = False\<rparr>"

text \<open>The body of the loop over the budgets, for the budget \<open>b\<close> of the fetched list.\<close>

definition check_budget :: "env \<Rightarrow> string \<Rightarrow> budget \<Rightarrow> world \<Rightarrow> (error + unit) \<times> world" where
  "check_budget env uid b w =
     (let s = spent uid b (expenses w) in
      case percentage_of s (budget.limit_amount b) of
        Inl e \<Rightarrow> (Inl e, w)
      | Inr p \<Rightarrow>
         (let w1 = w\<lparr>budgets := update_one (\<lambda>d. budget.id' d = budget.id' b)
                                             (\<lambda>d. d\<lparr>budget.current_spent := s\<rparr>) (budgets w)\<rparr>;
              alert_created = False
          in if 100 \<le> p \<and> recent_alert env (budget.id' b) ''exceeded'' (budget_alerts w1) = None
             then (Inr (),
                   w1\<lparr>budget_alerts :=
                        insert_one (exceeded_alert env uid b s p (uuid_calls w1)) (budget_alerts w1),
                      uuid_calls := uuid_calls w1 + 1\<rparr>)
             else if 80 \<le> p \<and> \<not> alert_created \<and>
                     recent_alert env (budget.id' b) ''warning'' (budget_alerts w1) = None
             then (Inr (),
                   w1\<lparr>budget_alerts :=
                        insert_one (warning_alert env uid b s p (uuid_calls w1)) (budget_alerts w1),
                      uuid_calls := uuid_calls w1 + 1\<rparr>)
             else (Inr (), w1)))"

fun check_budgets :: "env \<Rightarrow> string \<Rightarrow> budget list \<Rightarrow> world \<Rightarrow> (error + unit) \<times> world" where
  "check_budgets env uid [] w = (Inr (), w)"
| "check_budgets env uid (b # bs) w =
     (case check_budget env uid b w of
        (Inl e, w') \<Rightarrow> (Inl e, w')
      | (Inr _, w') \<Rightarrow> check_budgets env uid bs w')"

definition active_budgets :: "string \<Rightarrow> budget list \<Rightarrow> budget list" where
  "active_budgets uid bs =
     take 100 (filter (\<lambda>b. budget.user_id b = uid \<and> is_active b) bs)"

definition check_budget_alerts :: "env \<Rightarrow> string \<Rightarrow> world \<Rightarrow> (error + unit) \<times> world" where
  "check_budget_alerts env uid w = check_budgets env uid (active_budgets uid (budgets w)) w"

subsection \<open>Budget handlers\<close>

text \<open>
  \<^verbatim>\<open>get_budgets\<close> runs the evaluator once for every budget of the list it fetched first,
  then fetches the budgets again.
\<close>

definition user_budgets :: "string \<Rightarrow> budget list \<Rightarrow> budget list" where
  "user_budgets uid bs = take 100 (filter (\<lambda>b. budget.user_id b = uid) bs)"

fun get_budgets_loop :: "env \<Rightarrow> string \<Rightarrow> budget list \<Rightarrow> world \<Rightarrow> (error + unit) \<times> world" where
  "get_budgets_loop env uid [] w = (Inr (), w)"
| "get_budgets_loop env uid (b # bs) w =
     (case check_budget_alerts env uid w of
        (Inl e, w') \<Rightarrow> (Inl e, w')
      | (Inr _, w') \<Rightarrow> get_budgets_loop env uid bs w')"

definition get_budgets :: "env \<Rightarrow> string \<Rightarrow> world \<Rightarrow> (error + budget list) \<times> world" where
  "get_budgets env uid w =
     (case get_budgets_loop env uid (user_budgets uid (budgets w)) w of
        (Inl e, w') \<Rightarrow> (Inl e, w')
      | (Inr _, w') \<Rightarrow> (Inr (user_budgets uid (budgets w')), w'))"

record budget_create =
  category :: string
  limit_amount :: rat
  period :: string

definition create_budget ::
  "env \<Rightarrow> string \<Rightarrow> budget_create \<Rightarrow> world \<Rightarrow> (error + budget) \<times> world" where
  "create_budget env uid budget_data w =
     (let today = env_today env;
          (start_d, end_d) =
            (if budget_create.period budget_data = ''monthly'' then
               (let next_month = add_days (today\<lparr>day := 28\<rparr>) 4
                in (today\<lparr>day := 1\<rparr>, sub_days next_month (day next_month)))
             else
               (let start = sub_days today (weekday today)
                in (start, add_days start 6)));
          existing_budget =
            find_one (\<lambda>b. budget.user_id b = uid \<and>
                           budget.category b = budget_create.category budget_data \<and>
                           budget.period b = budget_create.period budget_data \<and>
                           is_active b) (budgets w)
      in if existing_budget \<noteq> None
         then (Inl (HTTPException 400
                      ''Active budget already exists for this category and period''), w)
         else
           (let b = \<lparr>budget.id' = env_uuid4 env (uuid_calls w), budget.user_id = uid,
                      budget.category = budget_create.category budget_data,
                      budget.limit_amount = budget_create.limit_amount budget_data,
                      budget.period = budget_create.period budget_data,
                      budget.start_date = str_date start_d,
                      budget.end_date = str_date end_d,
                      budget.current_spent = 0, budget.is_active = True,
                      budget.created_at = env_utcnow env\<rparr>
            in (Inr b, w\<lparr>budgets := insert_one b (budgets w),
                          uuid_calls := uuid_calls w + 1\<rparr>)))"

text \<open>
  \<^verbatim>\<open>get_budget_alerts\<close> answers with the user's alerts, newest first, at most 50; the
  store does not fix the order of alerts with equal timestamps, the model keeps the later
  insertion first.
\<close>

definition get_budget_alerts ::
  "env \<Rightarrow> string \<Rightarrow> world \<Rightarrow> (error + budget_alert list) \<times> world" where
  "get_budget_alerts env uid w =
     (case check_budget_alerts env uid w of
        (Inl e, w') \<Rightarrow> (Inl e, w')
      | (Inr _, w') \<Rightarrow>
          (Inr (take 50 (rev (sort_key budget_alert.created_at
                   (filter (\<lambda>a. budget_alert.user_id a = uid) (budget_alerts w'))))), w'))"

subsection \<open>Transaction handlers\<close>

record expense_create =
  title :: string
  amount :: rat
  category :: string
  type :: string
  description :: "string option"
  date :: "string option"

definition create_expense ::
  "env \<Rightarrow> string \<Rightarrow> expense_create \<Rightarrow> world \<Rightarrow> (error + expense) \<times> world" where
  "create_expense env uid expense_data w =
     (let e = \<lparr>expense.id' = env_uuid4 env (uuid_calls w), expense.user_id = uid,
                expense.title = expense_create.title expense_data,
                expense.amount = expense_create.amount expense_data,
                expense.category = expense_create.category expense_data,
                expense.type = expense_create.type expense_data,
                expense.description = expense_create.description expense_data,
                expense.date = (if truthy (expense_create.date expense_data)
                                then the (expense_create.date expense_data)
                                else str_date (env_today env)),
                expense.created_at = env_utcnow env\<rparr>;
          w1 = w\<lparr>expenses := insert_one e (expenses w), uuid_calls := uuid_calls w + 1\<rparr>
      in if expense_create.type expense_data = ''expense''
         then (case check_budget_alerts env uid w1 of
                 (Inl err, w2) \<Rightarrow> (Inl err, w2)
               | (Inr _, w2) \<Rightarrow> (Inr e, w2))
         else (Inr e, w1))"

record expense_update =
  title :: "string option"
  amount :: "rat option"
  category :: "string option"
  type :: "string option"
  description :: "string option"
  date :: "string option"

text \<open>\<^verbatim>\<open>update_data\<close> keeps the fields that are not \<^verbatim>\<open>None\<close>; it is empty when all are.\<close>

definition update_data_empty :: "expense_update \<Rightarrow> bool" where
  "update_data_empty u =
     (expense_update.title u = None \<and> expense_update.amount u = None \<and>
      expense_update.category u = None \<and> expense_update.type u = None \<and>
      expense_update.description u = None \<and> expense_update.date u = None)"

definition set_fields :: "expense_update \<Rightarrow> expense \<Rightarrow> expense" where
  "set_fields u e =
     e\<lparr>expense.title := (case expense_update.title u of None \<Rightarrow> expense.title e | Some v \<Rightarrow> v),
       expense.amount := (case expense_update.amount u of None \<Rightarrow> expense.amount e | Some v \<Rightarrow> v),
       expense.category :=
         (case expense_update.category u of None \<Rightarrow> expense.category e | Some v \<Rightarrow> v),
       expense.type := (case expense_update.type u of None \<Rightarrow> expense.type e | Some v \<Rightarrow> v),
       expense.description :=
         (case expense_update.description u of None \<Rightarrow> expense.description e
          | Some v \<Rightarrow> Some v),
       expense.date := (case expense_update.date u of None \<Rightarrow> expense.date e | Some v \<Rightarrow> v)\<rparr>"

definition update_expense ::
  "env \<Rightarrow> string \<Rightarrow> string \<Rightarrow> expense_update \<Rightarrow> world \<Rightarrow> (error + unit) \<times> world" where
  "update_expense env uid expense_id expense_data w =
     (case find_one (\<lambda>e. expense.id' e = expense_id \<and> expense.user_id e = uid) (expenses w) of
        None \<Rightarrow> (Inl (HTTPException 404 ''Expense not found''), w)
      | Some existing_expense \<Rightarrow>
          if \<not> update_data_empty expense_data then
            (let w1 = w\<lparr>expenses :=
                         update_one (\<lambda>e. expense.id' e = expense_id \<and> expense.user_id e = uid)
                                    (set_fields expense_data) (expenses w)\<rparr>
             in check_budget_alerts env uid w1)
          else (Inr (), w))"

subsection \<open>Aggregator (\<^verbatim>\<open>get_summary\<close>)\<close>

text \<open>
  The answer of \<^verbatim>\<open>get_summary\<close>. The dictionary \<^verbatim>\<open>category_totals\<close> is an association
  list in insertion order.
\<close>

record summary =
  total_expenses :: rat
  total_income :: rat
  balance :: rat
  category_breakdown :: "(string \<times> rat) list"
  transaction_count :: nat
  period :: string
  start_date :: "string option"
  end_date :: "string option"






subsection \<open>Example stores\<close>

text \<open>
  A user \<open>u1\<close> with one monthly budget of 100 on the category Food for March 2024, and
  the clock on 10 March 2024. The identifier generator of the examples returns a longer
  string at every call.
\<close>

definition march_env :: env where
  "march_env =
     \<lparr>env_today = \<lparr>year = 2024, month = 3, day = 10\<rparr>, env_utcnow = 1710072000000000,
      env_uuid4 = (\<lambda>n. replicate (Suc n) (CHR ''a''))\<rparr>"

definition food_budget :: budget where
  "food_budget =
     \<lparr>budget.id' = ''b1'', budget.user_id = ''u1'', budget.category = ''Food'',
      budget.limit_amount = 100, budget.period = ''monthly'',
      budget.start_date = ''2024-03-01'', budget.end_date = ''2024-03-31'',
      budget.current_spent = 0, budget.is_active = True, budget.created_at = 0\<rparr>"

definition dinner :: expense where
  "dinner =
     \<lparr>expense.id' = ''e1'', expense.user_id = ''u1'', expense.title = ''Dinner'',
      expense.amount = 105, expense.category = ''Food'', expense.type = ''expense'',
      expense.description = None, expense.date = ''2024-03-10'', expense.created_at = 0\<rparr>"

definition food_world :: world where
  "food_world = \<lparr>expenses = [dinner], budgets = [food_budget], budget_alerts = [], uuid_calls = 0\<rparr>"

text \<open>
  A crowded store: 101 active budgets of \<open>u1\<close> on Food with distinct identifiers, and 1001
  expenses of 1 on Food in March 2024.
\<close>

definition nth_expense :: "nat \<Rightarrow> expense" where
  "nth_expense i = dinner\<lparr>expense.id' := replicate (Suc i) (CHR ''e''), expense.amount := 1\<rparr>"

definition nth_budget :: "nat \<Rightarrow> budget" where
  "nth_budget i = food_budget\<lparr>budget.id' := replicate (Suc i) (CHR ''b'')\<rparr>"

definition crowded_world :: world where
  "crowded_world =
     \<lparr>expenses = map nth_expense [0..<1001], budgets = map nth_budget [0..<101],
      budget_alerts = [], uuid_calls = 0\<rparr>"

section \<open>Properties\<close>

subsection \<open>Day arithmetic\<close>









subsection \<open>The store operations\<close>

lemma update_one_map:
  assumes "distinct (map g xs)" "\<And>x. g (f x) = g x"
  shows "update_one (\<lambda>d. g d = i) f xs = map (\<lambda>d. if g d = i then f d else d) xs"
  using assms(1)
proof (induction xs)
  case Nil
  then show ?case by simp
next
  case (Cons x xs)
  show ?case
  proof (cases "g x = i")
    case True
    with Cons.prems have "\<forall>d \<in> set xs. g d \<noteq> i" by (force simp: image_iff)
    then have "map (\<lambda>d. if g d = i then f d else d) xs = xs"
      by (simp add: map_idI)
    with True show ?thesis by simp
  next
    case False
    with Cons show ?thesis by simp
  qed
qed

lemma update_one_length [simp]: "length (update_one P f xs) = length xs"
  by (induction xs) auto

lemma update_one_keeps:
  assumes "\<And>x. g (f x) = g x"
  shows "map g (update_one P f xs) = map g xs"
  using assms by (induction xs) auto

lemma find_one_None_iff: "find_one P xs = None \<longleftrightarrow> \<not> (\<exists>x \<in> set xs. P x)"
  by (auto simp: find_one_def find_None_iff)

subsection \<open>One budget of a pass\<close>

lemma percentage_of_eq: "percentage_of s l = Inr (if 0 < l then s / l * 100 else 0)"
  by (simp add: percentage_of_def truediv_def)

lemma check_budget_fst [simp]: "fst (check_budget env uid b w) = Inr ()"
  by (simp add: check_budget_def percentage_of_eq Let_def)

lemma check_budget_expenses [simp]:
  "expenses (snd (check_budget env uid b w)) = expenses w"
  by (simp add: check_budget_def percentage_of_eq Let_def)

lemma check_budget_budgets:
  "budgets (snd (check_budget env uid b w)) =
   update_one (\<lambda>d. budget.id' d = budget.id' b)
     (\<lambda>d. d\<lparr>budget.current_spent := spent uid b (expenses w)\<rparr>) (budgets w)"
  by (simp add: check_budget_def percentage_of_eq Let_def)

subsection \<open>The loop over the budgets\<close>

lemma check_budgets_Cons:
  "check_budgets env uid (b # bs) w = check_budgets env uid bs (snd (check_budget env uid b w))"
proof -
  have "fst (check_budget env uid b w) = Inr ()" by simp
  then obtain w' where "check_budget env uid b w = (Inr (), w')"
    by (cases "check_budget env uid b w") auto
  then show ?thesis by simp
qed

lemma check_budgets_fst [simp]: "fst (check_budgets env uid bs w) = Inr ()"
  by (induction bs arbitrary: w) (simp_all add: check_budgets_Cons del: check_budgets.simps(2))

lemma check_budgets_expenses [simp]:
  "expenses (snd (check_budgets env uid bs w)) = expenses w"
  by (induction bs arbitrary: w) (simp_all add: check_budgets_Cons del: check_budgets.simps(2))

lemma check_budget_alerts_fst [simp]: "fst (check_budget_alerts env uid w) = Inr ()"
  by (simp add: check_budget_alerts_def)

lemma check_budget_alerts_expenses [simp]:
  "expenses (snd (check_budget_alerts env uid w)) = expenses w"
  by (simp add: check_budget_alerts_def)

text \<open>With unique budget identifiers, the writes of a pass are a map over the collection.\<close>

lemma check_budgets_budgets_fold:
  assumes "distinct (map budget.id' (budgets w))"
  shows "budgets (snd (check_budgets env uid bs w)) =
         map (\<lambda>d. foldl (\<lambda>d b. if budget.id' d = budget.id' b
                               then d\<lparr>budget.current_spent := spent uid b (expenses w)\<rparr> else d) d bs)
             (budgets w)"
  using assms
proof (induction bs arbitrary: w)
  case Nil
  then show ?case by simp
next
  case (Cons b bs)
  let ?w1 = "snd (check_budget env uid b w)"
  have b1: "budgets ?w1 =
        map (\<lambda>d. if budget.id' d = budget.id' b
                 then d\<lparr>budget.current_spent := spent uid b (expenses w)\<rparr> else d) (budgets w)"
    unfolding check_budget_budgets
    by (rule update_one_map [OF Cons.prems]) simp
  have "map budget.id' (budgets ?w1) = map budget.id' (budgets w)"
    unfolding check_budget_budgets by (rule update_one_keeps) simp
  with Cons.prems have "distinct (map budget.id' (budgets ?w1))" by simp
  from Cons.IH [OF this]
  have "budgets (snd (check_budgets env uid bs ?w1)) =
         map (\<lambda>d. foldl (\<lambda>d b. if budget.id' d = budget.id' b
                               then d\<lparr>budget.current_spent := spent uid b (expenses w)\<rparr> else d) d bs)
             (budgets ?w1)"
    by (simp only: check_budget_expenses)
  then show ?case
    unfolding check_budgets_Cons b1 by (simp add: o_def)
qed

lemma fold_spent_member:
  assumes "distinct (map budget.id' ds)" "d \<in> set ds" "set bs \<subseteq> set ds"
    and "acc = d \<or> acc = d\<lparr>budget.current_spent := spent uid d es\<rparr>"
  shows "foldl (\<lambda>d b. if budget.id' d = budget.id' b
                      then d\<lparr>budget.current_spent := spent uid b es\<rparr> else d) acc bs =
         (if d \<in> set bs then d\<lparr>budget.current_spent := spent uid d es\<rparr> else acc)"
  using assms(3,4)
proof (induction bs arbitrary: acc)
  case Nil
  then show ?case by simp
next
  case (Cons b bs)
  have idacc: "budget.id' acc = budget.id' d" using Cons.prems(2) by auto
  have bin: "b \<in> set ds" and sub: "set bs \<subseteq> set ds" using Cons.prems(1) by auto
  show ?case
  proof (cases "budget.id' d = budget.id' b")
    case True
    with assms(1,2) bin have "b = d"
      by (metis distinct_map inj_onD)
    then show ?thesis
      using Cons.IH [OF sub, of "d\<lparr>budget.current_spent := spent uid d es\<rparr>"] idacc Cons.prems(2)
      by auto
  next
    case False
    then have "b \<noteq> d" by auto
    then show ?thesis using Cons.IH [OF sub Cons.prems(2)] idacc False by auto
  qed
qed

lemma check_budgets_budgets:
  assumes "distinct (map budget.id' (budgets w))" "set bs \<subseteq> set (budgets w)"
  shows "budgets (snd (check_budgets env uid bs w)) =
         map (\<lambda>d. if d \<in> set bs then d\<lparr>budget.current_spent := spent uid d (expenses w)\<rparr> else d)
             (budgets w)"
  unfolding check_budgets_budgets_fold [OF assms(1)]
  by (rule map_cong [OF refl]) (simp add: fold_spent_member [OF assms(1) _ assms(2)])

lemma active_budgets_subset: "set (active_budgets uid bs) \<subseteq> set bs"
  unfolding active_budgets_def by (meson filter_is_subset order_trans set_take_subset)

lemma check_budget_alerts_budgets:
  assumes "distinct (map budget.id' (budgets w))"
  shows "budgets (snd (check_budget_alerts env uid w)) =
         map (\<lambda>d. if d \<in> set (active_budgets uid (budgets w))
                  then d\<lparr>budget.current_spent := spent uid d (expenses w)\<rparr> else d)
             (budgets w)"
  unfolding check_budget_alerts_def
  by (rule check_budgets_budgets [OF assms active_budgets_subset])

subsection \<open>Alerts of a pass, and a second pass\<close>

lemma matches_budget_update [simp]:
  "matches_budget uid (d\<lparr>budget.current_spent := x\<rparr>) = matches_budget uid d"
  by (rule ext) (simp add: matches_budget_def)

lemma spent_update [simp]:
  "spent uid (d\<lparr>budget.current_spent := x\<rparr>) es = spent uid d es"
  by (simp add: spent_def budget_expenses_def)

lemma recent_alert_None_iff:
  "recent_alert env bid kind als = None \<longleftrightarrow>
   (\<forall>a \<in> set als. budget_alert.budget_id a = bid \<and> budget_alert.alert_type a = kind \<longrightarrow>
                   budget_alert.created_at a < env_utcnow env - timedelta_days 1)"
  by (auto simp: recent_alert_def find_one_None_iff)

lemma check_budget_new_alerts:
  "\<exists>new. budget_alerts (snd (check_budget env uid b w)) = budget_alerts w @ new \<and>
         (\<forall>a \<in> set new. budget_alert.budget_id a = budget.id' b \<and>
            budget_alert.created_at a = env_utcnow env \<and>
            recent_alert env (budget.id' b) (budget_alert.alert_type a) (budget_alerts w) = None)"
  by (simp add: check_budget_def percentage_of_eq Let_def insert_one_def exceeded_alert_def
      warning_alert_def)

lemma check_budgets_new_alerts:
  "\<exists>new. budget_alerts (snd (check_budgets env uid bs w)) = budget_alerts w @ new \<and>
         (\<forall>a \<in> set new. budget_alert.created_at a = env_utcnow env \<and>
            (\<forall>a' \<in> set (budget_alerts w).
               budget_alert.budget_id a' = budget_alert.budget_id a \<and>
               budget_alert.alert_type a' = budget_alert.alert_type a \<longrightarrow>
               budget_alert.created_at a' < env_utcnow env - timedelta_days 1))"
proof (induction bs arbitrary: w)
  case Nil
  then show ?case by simp
next
  case (Cons b bs)
  let ?w1 = "snd (check_budget env uid b w)"
  from check_budget_new_alerts [of env uid b w]
  obtain n1 where n1: "budget_alerts ?w1 = budget_alerts w @ n1"
    and p1: "\<forall>a \<in> set n1. budget_alert.budget_id a = budget.id' b \<and>
            budget_alert.created_at a = env_utcnow env \<and>
            recent_alert env (budget.id' b) (budget_alert.alert_type a) (budget_alerts w) = None"
    by blast
  from Cons.IH [of ?w1]
  obtain n2 where n2: "budget_alerts (snd (check_budgets env uid bs ?w1)) = budget_alerts ?w1 @ n2"
    and p2: "\<forall>a \<in> set n2. budget_alert.created_at a = env_utcnow env \<and>
            (\<forall>a' \<in> set (budget_alerts ?w1).
               budget_alert.budget_id a' = budget_alert.budget_id a \<and>
               budget_alert.alert_type a' = budget_alert.alert_type a \<longrightarrow>
               budget_alert.created_at a' < env_utcnow env - timedelta_days 1)"
    by blast
  have "budget_alerts (snd (check_budgets env uid (b # bs) w)) = budget_alerts w @ (n1 @ n2)"
    by (simp add: check_budgets_Cons n1 n2 del: check_budgets.simps(2))
  moreover have "\<forall>a \<in> set (n1 @ n2). budget_alert.created_at a = env_utcnow env \<and>
            (\<forall>a' \<in> set (budget_alerts w).
               budget_alert.budget_id a' = budget_alert.budget_id a \<and>
               budget_alert.alert_type a' = budget_alert.alert_type a \<longrightarrow>
               budget_alert.created_at a' < env_utcnow env - timedelta_days 1)"
  proof
    fix a assume "a \<in> set (n1 @ n2)"
    then consider "a \<in> set n1" | "a \<in> set n2" by auto
    then show "budget_alert.created_at a = env_utcnow env \<and>
            (\<forall>a' \<in> set (budget_alerts w).
               budget_alert.budget_id a' = budget_alert.budget_id a \<and>
               budget_alert.alert_type a' = budget_alert.alert_type a \<longrightarrow>
               budget_alert.created_at a' < env_utcnow env - timedelta_days 1)"
    proof cases
      case 1
      with p1 show ?thesis by (simp add: recent_alert_None_iff)
    next
      case 2
      with p2 show ?thesis by (simp add: n1)
    qed
  qed
  ultimately show ?case by blast
qed

lemma active_budgets_map:
  assumes "\<And>d. budget.user_id (h d) = budget.user_id d" "\<And>d. is_active (h d) = is_active d"
  shows "active_budgets uid (map h ds) = map h (active_budgets uid ds)"
  by (simp add: active_budgets_def filter_map o_def assms take_map)

lemma second_pass_budgets:
  assumes "distinct (map budget.id' (budgets w))"
  shows "budgets (snd (check_budget_alerts env2 uid (snd (check_budget_alerts env1 uid w)))) =
         budgets (snd (check_budget_alerts env1 uid w))"
proof -
  let ?w1 = "snd (check_budget_alerts env1 uid w)"
  let ?A = "active_budgets uid (budgets w)"
  let ?h = "\<lambda>d. if d \<in> set ?A
                  then d\<lparr>budget.current_spent := spent uid d (expenses w)\<rparr> else d"
  have b1: "budgets ?w1 = map ?h (budgets w)"
    by (rule check_budget_alerts_budgets [OF assms])
  have ids: "map budget.id' (budgets ?w1) = map budget.id' (budgets w)"
    unfolding b1 by (simp add: o_def)
  then have d1: "distinct (map budget.id' (budgets ?w1))" using assms by simp
  have A2: "active_budgets uid (budgets ?w1) = map ?h ?A"
    unfolding b1 by (rule active_budgets_map) simp_all
  have idem: "d\<lparr>budget.current_spent := spent uid d (expenses w)\<rparr> = d"
    if "d \<in> set (map ?h ?A)" for d
  proof -
    from that obtain d0 where "d0 \<in> set ?A" "d = ?h d0" by auto
    then show ?thesis by simp
  qed
  have "budgets (snd (check_budget_alerts env2 uid ?w1)) =
        map (\<lambda>d. if d \<in> set (active_budgets uid (budgets ?w1))
                 then d\<lparr>budget.current_spent := spent uid d (expenses ?w1)\<rparr> else d)
            (budgets ?w1)"
    by (rule check_budget_alerts_budgets [OF d1])
  also have "\<dots> = map (\<lambda>d. d) (budgets ?w1)"
    by (rule map_cong [OF refl]) (simp add: A2 idem del: set_map)
  finally show ?thesis by simp
qed

lemma check_budget_alerts_new_alerts:
  "\<exists>new. budget_alerts (snd (check_budget_alerts env uid w)) = budget_alerts w @ new \<and>
         (\<forall>a \<in> set new. budget_alert.created_at a = env_utcnow env \<and>
            (\<forall>a' \<in> set (budget_alerts w).
               budget_alert.budget_id a' = budget_alert.budget_id a \<and>
               budget_alert.alert_type a' = budget_alert.alert_type a \<longrightarrow>
               budget_alert.created_at a' < env_utcnow env - timedelta_days 1))"
  unfolding check_budget_alerts_def by (rule check_budgets_new_alerts)

lemma second_pass_alerts:
  assumes "env_utcnow env2 - timedelta_days 1 \<le> env_utcnow env1"
  shows "\<exists>new1 new2.
           budget_alerts (snd (check_budget_alerts env1 uid w)) = budget_alerts w @ new1 \<and>
           budget_alerts (snd (check_budget_alerts env2 uid (snd (check_budget_alerts env1 uid w)))) =
             budget_alerts (snd (check_budget_alerts env1 uid w)) @ new2 \<and>
           (\<forall>a2 \<in> set new2. \<forall>a1 \<in> set new1.
              \<not> (budget_alert.budget_id a2 = budget_alert.budget_id a1 \<and>
                 budget_alert.alert_type a2 = budget_alert.alert_type a1))"
proof -
  let ?w1 = "snd (check_budget_alerts env1 uid w)"
  from check_budget_alerts_new_alerts [of env1 uid w]
  obtain n1 where n1: "budget_alerts ?w1 = budget_alerts w @ n1"
    and p1: "\<forall>a \<in> set n1. budget_alert.created_at a = env_utcnow env1"
    by blast
  from check_budget_alerts_new_alerts [of env2 uid ?w1]
  obtain n2 where n2: "budget_alerts (snd (check_budget_alerts env2 uid ?w1)) =
                       budget_alerts ?w1 @ n2"
    and p2: "\<forall>a \<in> set n2. \<forall>a' \<in> set (budget_alerts ?w1).
               budget_alert.budget_id a' = budget_alert.budget_id a \<and>
               budget_alert.alert_type a' = budget_alert.alert_type a \<longrightarrow>
               budget_alert.created_at a' < env_utcnow env2 - timedelta_days 1"
    by blast
  have "\<forall>a2 \<in> set n2. \<forall>a1 \<in> set n1.
              \<not> (budget_alert.budget_id a2 = budget_alert.budget_id a1 \<and>
                 budget_alert.alert_type a2 = budget_alert.alert_type a1)"
  proof (intro ballI notI)
    fix a2 a1 assume a: "a2 \<in> set n2" "a1 \<in> set n1"
      and same: "budget_alert.budget_id a2 = budget_alert.budget_id a1 \<and>
                 budget_alert.alert_type a2 = budget_alert.alert_type a1"
    from a(2) have "a1 \<in> set (budget_alerts ?w1)" by (simp add: n1)
    with p2 a(1) same have "budget_alert.created_at a1 < env_utcnow env2 - timedelta_days 1"
      by simp
    moreover from p1 a(2) have "budget_alert.created_at a1 = env_utcnow env1" by simp
    ultimately show False using assms by simp
  qed
  with n1 n2 show ?thesis by blast
qed

lemma check_budget_candidate:
  "(let p = (if 0 < budget.limit_amount b
             then spent uid b (expenses w) / budget.limit_amount b * 100 else 0);
        old = budget_alerts w;
        new = budget_alerts (snd (check_budget env uid b w))
    in (100 \<le> p \<longrightarrow>
          ((\<exists>a. new = old @ [a] \<and> budget_alert.alert_type a = ''exceeded'' \<and>
                budget_alert.budget_id a = budget.id' b) \<longleftrightarrow>
           recent_alert env (budget.id' b) ''exceeded'' old = None)) \<and>
       (80 \<le> p \<and> p < 100 \<longrightarrow>
          ((\<exists>a. new = old @ [a] \<and> budget_alert.alert_type a = ''warning'' \<and>
                budget_alert.budget_id a = budget.id' b) \<longleftrightarrow>
           recent_alert env (budget.id' b) ''warning'' old = None)) \<and>
       (p < 80 \<longrightarrow> new = old))"
  by (simp add: check_budget_def percentage_of_eq Let_def insert_one_def exceeded_alert_def
      warning_alert_def)

lemma sum_list_take_le:
  assumes "\<forall>x \<in> set xs. (0::rat) \<le> f x"
  shows "sum_list (map f (take n xs)) \<le> sum_list (map f xs)"
proof -
  have "sum_list (map f xs) = sum_list (map f (take n xs)) + sum_list (map f (drop n xs))"
    by (metis append_take_drop_id map_append sum_list_append)
  moreover have "0 \<le> sum_list (map f (drop n xs))"
    using assms by (auto intro!: sum_list_nonneg dest!: in_set_dropD)
  ultimately show ?thesis by simp
qed

subsection \<open>The example stores evaluated\<close>

lemmas eval_defs = check_budget_alerts_def active_budgets_def check_budget_def spent_def
  budget_expenses_def matches_budget_def percentage_of_def truediv_def recent_alert_def
  find_one_def insert_one_def timedelta_days_def exceeded_alert_def warning_alert_def Let_def

lemma food_first_pass:
  "snd (check_budget_alerts march_env ''u1'' food_world) =
   \<lparr>expenses = [dinner], budgets = [food_budget\<lparr>budget.current_spent := 105\<rparr>],
    budget_alerts = [exceeded_alert march_env ''u1'' food_budget 105 105 0], uuid_calls = 1\<rparr>"
  by (simp add: eval_defs food_world_def food_budget_def dinner_def march_env_def)

lemma food_second_pass:
  "snd (check_budget_alerts march_env ''u1''
     \<lparr>expenses = [dinner], budgets = [food_budget\<lparr>budget.current_spent := 105\<rparr>],
      budget_alerts = [exceeded_alert march_env ''u1'' food_budget 105 105 0], uuid_calls = 1\<rparr>) =
   \<lparr>expenses = [dinner], budgets = [food_budget\<lparr>budget.current_spent := 105\<rparr>],
    budget_alerts = [exceeded_alert march_env ''u1'' food_budget 105 105 0,
                     warning_alert march_env ''u1'' (food_budget\<lparr>budget.current_spent := 105\<rparr>) 105 105 1],
    uuid_calls = 2\<rparr>"
  by (simp add: eval_defs food_world_def food_budget_def dinner_def march_env_def)

lemma crowded_matches: "matches_budget ''u1'' (nth_budget j) (nth_expense i)"
  by (simp add: matches_budget_def nth_budget_def nth_expense_def food_budget_def dinner_def)

lemma crowded_filter:
  "filter (matches_budget ''u1'' (nth_budget j)) (map nth_expense [0..<n]) = map nth_expense [0..<n]"
  by (simp add: filter_map o_def crowded_matches del: upt_rec_numeral)

lemma crowded_amount [simp]: "expense.amount (nth_expense i) = 1"
  by (simp add: nth_expense_def)

lemma crowded_expenses: "expenses crowded_world = map nth_expense [0..<1001]"
  by (simp add: crowded_world_def del: upt_rec_numeral)

lemma crowded_spent: "spent ''u1'' (nth_budget j) (expenses crowded_world) = 1000"
  by (simp add: spent_def budget_expenses_def crowded_expenses crowded_filter take_map o_def
      sum_list_triv del: upt_rec_numeral)

lemma crowded_full:
  "sum_list (map expense.amount
     (filter (matches_budget ''u1'' (nth_budget j)) (expenses crowded_world))) = 1001"
  by (simp add: crowded_expenses crowded_filter o_def sum_list_triv del: upt_rec_numeral)

lemma nth_budget_inj: "nth_budget i = nth_budget j \<Longrightarrow> i = j"
proof -
  assume "nth_budget i = nth_budget j"
  then have "budget.id' (nth_budget i) = budget.id' (nth_budget j)" by simp
  then have "length (replicate (Suc i) (CHR ''b'')) = length (replicate (Suc j) (CHR ''b''))"
    by (simp add: nth_budget_def)
  then show "i = j" by simp
qed

lemma crowded_distinct: "distinct (map budget.id' (budgets crowded_world))"
proof -
  have "inj_on (\<lambda>i. replicate (Suc i) (CHR ''b'')) (set [0..<101])"
    by (rule inj_onI) (metis length_replicate nat.inject)
  then show ?thesis
    by (simp add: crowded_world_def nth_budget_def o_def distinct_map del: upt_rec_numeral)
qed

lemma crowded_active:
  "active_budgets ''u1'' (budgets crowded_world) = map nth_budget [0..<100]"
  by (simp add: active_budgets_def crowded_world_def filter_map o_def nth_budget_def
      food_budget_def take_map del: upt_rec_numeral)

lemma crowded_budgets:
  "budgets (snd (check_budget_alerts env ''u1'' crowded_world)) =
   map (\<lambda>i. if i < 100 then (nth_budget i)\<lparr>budget.current_spent := 1000\<rparr> else nth_budget i)
       [0..<101]"
proof -
  have "budgets (snd (check_budget_alerts env ''u1'' crowded_world)) =
        map (\<lambda>d. if d \<in> set (map nth_budget [0..<100])
                 then d\<lparr>budget.current_spent := spent ''u1'' d (expenses crowded_world)\<rparr> else d)
            (budgets crowded_world)"
    unfolding check_budget_alerts_budgets [OF crowded_distinct] crowded_active ..
  also have "\<dots> = map (\<lambda>i. if i < 100 then (nth_budget i)\<lparr>budget.current_spent := 1000\<rparr>
                             else nth_budget i) [0..<101]"
  proof -
    have b: "budgets crowded_world = map nth_budget [0..<101]"
      by (simp add: crowded_world_def del: upt_rec_numeral)
    have m: "nth_budget i \<in> set (map nth_budget [0..<100]) \<longleftrightarrow> i < 100" for i
      by (auto simp del: upt_rec_numeral dest: nth_budget_inj)
    show ?thesis
      unfolding b by (simp add: m crowded_spent del: upt_rec_numeral set_map)
  qed
  finally show ?thesis .
qed

section \<open>The claims\<close>

subsection \<open>Period resolver\<close>



text \<open>
  C9. For the tag \<^verbatim>\<open>custom\<close>, the two bounds are passed through exactly when both are
  non-empty strings; if either is absent or empty, the answer is the current-month range.
\<close>

theorem get_date_range_custom:
  "get_date_range today ''custom'' cs ce =
     (if truthy cs \<and> truthy ce then (the cs, the ce)
      else get_date_range today ''month'' None None) \<and>
   (truthy cs \<longleftrightarrow> (\<exists>v. cs = Some v \<and> v \<noteq> [])) \<and>
   get_date_range today ''custom'' None ce = get_date_range today ''month'' None None \<and>
   get_date_range today ''custom'' (Some []) ce = get_date_range today ''month'' None None \<and>
   get_date_range today ''custom'' cs None = get_date_range today ''month'' None None \<and>
   get_date_range today ''custom'' cs (Some []) = get_date_range today ''month'' None None"
  by (cases cs) (simp_all add: get_date_range_def truthy_def)

subsection \<open>Budget evaluator\<close>

text \<open>
  C4. For a budget whose limit is zero or negative the percentage is 0 and no division
  takes place: the computation of the percentage never yields \<open>ZeroDivisionError\<close>, one
  budget and a whole pass end without an error, and such a budget gets no alert.
\<close>

theorem percentage_guard:
  "(l \<le> 0 \<longrightarrow> percentage_of s l = Inr 0) \<and>
   (\<exists>p. percentage_of s l = Inr p) \<and>
   fst (check_budget env uid b w) = Inr () \<and>
   fst (check_budget_alerts env uid w) = Inr () \<and>
   (budget.limit_amount b \<le> 0 \<longrightarrow>
      budget_alerts (snd (check_budget env uid b w)) = budget_alerts w)"
proof -
  have "budget.limit_amount b \<le> 0 \<Longrightarrow>
        budget_alerts (snd (check_budget env uid b w)) = budget_alerts w"
    by (simp add: check_budget_def percentage_of_eq Let_def)
  then show ?thesis by (simp add: percentage_of_eq)
qed

theorem percentage_guard_witness:
  "(0::rat) \<le> 0 \<and> percentage_of 50 0 = Inr 0 \<and>
   budget.limit_amount (food_budget\<lparr>budget.limit_amount := - 5\<rparr>) \<le> 0 \<and>
   budget_alerts (snd (check_budget march_env ''u1''
     (food_budget\<lparr>budget.limit_amount := - 5\<rparr>) food_world)) = []"
  using percentage_guard [of 0 50 march_env "''u1''"
      "food_budget\<lparr>budget.limit_amount := - 5\<rparr>" food_world]
  by (simp add: food_world_def)

subsection \<open>Aggregator\<close>






subsection \<open>Creating a budget\<close>

text \<open>
  C8. When an active budget of the same user, category and period kind exists,
  \<^verbatim>\<open>create_budget\<close> fails with the error of status 400 (the specification's Conflict) and
  the store is the one before the request; when none exists it succeeds and the store has
  exactly one more budget, the new one, appended.
\<close>

theorem create_budget_conflict:
  "((\<exists>b \<in> set (budgets w). budget.user_id b = uid \<and>
        budget.category b = budget_create.category d \<and>
        budget.period b = budget_create.period d \<and> is_active b) \<longrightarrow>
      create_budget env uid d w =
        (Inl (HTTPException 400 ''Active budget already exists for this category and period''), w)) \<and>
   (\<not> (\<exists>b \<in> set (budgets w). budget.user_id b = uid \<and>
        budget.category b = budget_create.category d \<and>
        budget.period b = budget_create.period d \<and> is_active b) \<longrightarrow>
      (\<exists>b. create_budget env uid d w =
             (Inr b, w\<lparr>budgets := budgets w @ [b], uuid_calls := uuid_calls w + 1\<rparr>) \<and>
           budget.id' b = env_uuid4 env (uuid_calls w) \<and>
           budget.user_id b = uid \<and>
           budget.category b = budget_create.category d \<and>
           budget.period b = budget_create.period d \<and>
           budget.limit_amount b = budget_create.limit_amount d \<and>
           budget.current_spent b = 0 \<and> is_active b))"
proof (intro conjI impI)
  assume "\<exists>b \<in> set (budgets w). budget.user_id b = uid \<and>
        budget.category b = budget_create.category d \<and>
        budget.period b = budget_create.period d \<and> is_active b"
  then have "find_one (\<lambda>b. budget.user_id b = uid \<and>
        budget.category b = budget_create.category d \<and>
        budget.period b = budget_create.period d \<and> is_active b) (budgets w) \<noteq> None"
    by (simp add: find_one_None_iff)
  then show "create_budget env uid d w =
        (Inl (HTTPException 400 ''Active budget already exists for this category and period''), w)"
    by (simp add: create_budget_def Let_def split_def)
next
  assume "\<not> (\<exists>b \<in> set (budgets w). budget.user_id b = uid \<and>
        budget.category b = budget_create.category d \<and>
        budget.period b = budget_create.period d \<and> is_active b)"
  then have "find_one (\<lambda>b. budget.user_id b = uid \<and>
        budget.category b = budget_create.category d \<and>
        budget.period b = budget_create.period d \<and> is_active b) (budgets w) = None"
    by (simp add: find_one_None_iff)
  then show "\<exists>b. create_budget env uid d w =
             (Inr b, w\<lparr>budgets := budgets w @ [b], uuid_calls := uuid_calls w + 1\<rparr>) \<and>
           budget.id' b = env_uuid4 env (uuid_calls w) \<and>
           budget.user_id b = uid \<and>
           budget.category b = budget_create.category d \<and>
           budget.period b = budget_create.period d \<and>
           budget.limit_amount b = budget_create.limit_amount d \<and>
           budget.current_spent b = 0 \<and> is_active b"
    by (simp add: create_budget_def Let_def split_def insert_one_def)
qed

theorem create_budget_conflict_witness:
  "create_budget march_env ''u1''
     \<lparr>budget_create.category = ''Food'', budget_create.limit_amount = 50,
      budget_create.period = ''monthly''\<rparr> food_world =
     (Inl (HTTPException 400 ''Active budget already exists for this category and period''),
      food_world) \<and>
   map budget.category (budgets (snd (create_budget march_env ''u1''
     \<lparr>budget_create.category = ''Travel'', budget_create.limit_amount = 50,
      budget_create.period = ''monthly''\<rparr> food_world))) = [''Food'', ''Travel'']"
proof -
  let ?f = "\<lparr>budget_create.category = ''Food'', budget_create.limit_amount = 50,
      budget_create.period = ''monthly''\<rparr>"
  let ?t = "\<lparr>budget_create.category = ''Travel'', budget_create.limit_amount = 50,
      budget_create.period = ''monthly''\<rparr>"
  have "\<exists>b \<in> set (budgets food_world). budget.user_id b = ''u1'' \<and>
        budget.category b = budget_create.category ?f \<and>
        budget.period b = budget_create.period ?f \<and> is_active b"
    by (simp add: food_world_def food_budget_def)
  with create_budget_conflict [of food_world "''u1''" ?f march_env]
  have 1: "create_budget march_env ''u1'' ?f food_world =
     (Inl (HTTPException 400 ''Active budget already exists for this category and period''),
      food_world)" by (rule_tac mp) (erule conjunct1)
  have "\<not> (\<exists>b \<in> set (budgets food_world). budget.user_id b = ''u1'' \<and>
        budget.category b = budget_create.category ?t \<and>
        budget.period b = budget_create.period ?t \<and> is_active b)"
    by (simp add: food_world_def food_budget_def)
  with create_budget_conflict [of food_world "''u1''" ?t march_env]
  obtain b where "create_budget march_env ''u1'' ?t food_world =
             (Inr b, food_world\<lparr>budgets := budgets food_world @ [b],
                                uuid_calls := uuid_calls food_world + 1\<rparr>)"
     and "budget.category b = budget_create.category ?t"
    by blast
  then have 2: "map budget.category (budgets (snd (create_budget march_env ''u1'' ?t food_world))) =
     [''Food'', ''Travel'']"
    by (simp add: food_world_def food_budget_def)
  from 1 2 show ?thesis by (rule conjI)
qed

subsection \<open>Thresholds and deduplication\<close>

text \<open>
  C1. The thresholds at work on the store of the examples, where 105 of a limit of 100 is
  spent, the percentage being 105. The first pass inserts an alert of kind \<^verbatim>\<open>exceeded\<close>.
  A second pass at the same instant finds that alert, so the first condition of the
  evaluator is false; the \<^verbatim>\<open>elif\<close> then holds, since 105 is at least 80 and no
  \<^verbatim>\<open>warning\<close> is recent, and the pass inserts an alert of kind \<^verbatim>\<open>warning\<close> with
  percentage 105. At or above 100 percent the kind that fires is therefore not always
  \<^verbatim>\<open>exceeded\<close>.
\<close>

theorem warning_fires_over_limit:
  "percentage_of (spent ''u1'' food_budget (expenses food_world))
     (budget.limit_amount food_budget) = Inr 105 \<and>
   map budget_alert.alert_type
     (budget_alerts (snd (check_budget_alerts march_env ''u1'' food_world))) = [''exceeded''] \<and>
   map (\<lambda>a. (budget_alert.alert_type a, budget_alert.percentage a))
     (budget_alerts (snd (check_budget_alerts march_env ''u1''
        (snd (check_budget_alerts march_env ''u1'' food_world))))) =
     [(''exceeded'', 105), (''warning'', 105)]"
proof -
  have "percentage_of (spent ''u1'' food_budget (expenses food_world))
     (budget.limit_amount food_budget) = Inr 105"
    by (simp add: percentage_of_eq spent_def budget_expenses_def matches_budget_def
        food_world_def food_budget_def dinner_def)
  then show ?thesis
    unfolding food_first_pass food_second_pass
    by (simp add: exceeded_alert_def warning_alert_def)
qed

text \<open>
  C2. For one budget of a pass, with \<open>p\<close> the percentage: when \<open>p\<close> is at least 100 an
  \<^verbatim>\<open>exceeded\<close> alert of that budget is inserted if and only if no \<^verbatim>\<open>exceeded\<close> alert of
  that budget was created at or after the clock minus 24 hours; when \<open>p\<close> is at least 80
  and below 100 the same holds for \<^verbatim>\<open>warning\<close>; below 80 nothing is inserted. Two passes
  in succession, the second less than 24 hours after the first, on a store with unique
  budget identifiers: the second pass leaves every budget as the first one left it (the
  same \<^verbatim>\<open>current_spent\<close>), and no alert it inserts has the budget and the kind of an
  alert the first pass inserted.
\<close>

theorem evaluator_dedup:
  assumes "distinct (map budget.id' (budgets w))"
    and "env_utcnow env2 - timedelta_days 1 \<le> env_utcnow env1"
  shows
   "(let p = (if 0 < budget.limit_amount b
              then spent uid b (expenses w) / budget.limit_amount b * 100 else 0);
         old = budget_alerts w;
         new = budget_alerts (snd (check_budget env1 uid b w))
     in (100 \<le> p \<longrightarrow>
           ((\<exists>a. new = old @ [a] \<and> budget_alert.alert_type a = ''exceeded'' \<and>
                 budget_alert.budget_id a = budget.id' b) \<longleftrightarrow>
            recent_alert env1 (budget.id' b) ''exceeded'' old = None)) \<and>
        (80 \<le> p \<and> p < 100 \<longrightarrow>
           ((\<exists>a. new = old @ [a] \<and> budget_alert.alert_type a = ''warning'' \<and>
                 budget_alert.budget_id a = budget.id' b) \<longleftrightarrow>
            recent_alert env1 (budget.id' b) ''warning'' old = None)) \<and>
        (p < 80 \<longrightarrow> new = old)) \<and>
    (recent_alert env1 (budget.id' b) k (budget_alerts w) = None \<longleftrightarrow>
       (\<forall>a \<in> set (budget_alerts w).
          budget_alert.budget_id a = budget.id' b \<and> budget_alert.alert_type a = k \<longrightarrow>
          budget_alert.created_at a < env_utcnow env1 - timedelta_days 1)) \<and>
    (let w1 = snd (check_budget_alerts env1 uid w);
         w2 = snd (check_budget_alerts env2 uid w1)
     in budgets w2 = budgets w1 \<and>
        (\<exists>new1 new2.
           budget_alerts w1 = budget_alerts w @ new1 \<and>
           budget_alerts w2 = budget_alerts w1 @ new2 \<and>
           (\<forall>a2 \<in> set new2. \<forall>a1 \<in> set new1.
              \<not> (budget_alert.budget_id a2 = budget_alert.budget_id a1 \<and>
                 budget_alert.alert_type a2 = budget_alert.alert_type a1))))"
proof -
  note c = check_budget_candidate [of b uid w env1]
  note r = recent_alert_None_iff [of env1 "budget.id' b" k "budget_alerts w"]
  note b2 = second_pass_budgets [OF assms(1), of env2 uid env1]
  note a2 = second_pass_alerts [OF assms(2), of uid w]
  from b2 a2 have
    "let w1 = snd (check_budget_alerts env1 uid w);
         w2 = snd (check_budget_alerts env2 uid w1)
     in budgets w2 = budgets w1 \<and>
        (\<exists>new1 new2.
           budget_alerts w1 = budget_alerts w @ new1 \<and>
           budget_alerts w2 = budget_alerts w1 @ new2 \<and>
           (\<forall>a2 \<in> set new2. \<forall>a1 \<in> set new1.
              \<not> (budget_alert.budget_id a2 = budget_alert.budget_id a1 \<and>
                 budget_alert.alert_type a2 = budget_alert.alert_type a1)))"
    unfolding Let_def by (rule conjI)
  with c r show ?thesis by (intro conjI) assumption+
qed

theorem evaluator_dedup_witness:
  "distinct (map budget.id' (budgets food_world)) \<and>
   env_utcnow march_env - timedelta_days 1 \<le> env_utcnow march_env \<and>
   budgets (snd (check_budget_alerts march_env ''u1''
      (snd (check_budget_alerts march_env ''u1'' food_world)))) =
     budgets (snd (check_budget_alerts march_env ''u1'' food_world)) \<and>
   map budget.current_spent
     (budgets (snd (check_budget_alerts march_env ''u1'' food_world))) = [105] \<and>
   map budget_alert.alert_type
     (budget_alerts (snd (check_budget_alerts march_env ''u1'' food_world))) = [''exceeded''] \<and>
   map budget_alert.alert_type
     (budget_alerts (snd (check_budget_alerts march_env ''u1''
        (snd (check_budget_alerts march_env ''u1'' food_world))))) = [''exceeded'', ''warning'']"
proof -
  have h1: "distinct (map budget.id' (budgets food_world))" by (simp add: food_world_def)
  have h2: "env_utcnow march_env - timedelta_days 1 \<le> env_utcnow march_env"
    by (simp add: timedelta_days_def)
  note t = evaluator_dedup [OF h1 h2, of food_budget "''u1''" "''exceeded''"]
  from t [THEN conjunct2, THEN conjunct2, unfolded Let_def, THEN conjunct1]
  have b: "budgets (snd (check_budget_alerts march_env ''u1''
      (snd (check_budget_alerts march_env ''u1'' food_world)))) =
     budgets (snd (check_budget_alerts march_env ''u1'' food_world))" .
  have c: "map budget.current_spent
     (budgets (snd (check_budget_alerts march_env ''u1'' food_world))) = [105]"
    by (simp add: food_first_pass)
  have a1: "map budget_alert.alert_type
     (budget_alerts (snd (check_budget_alerts march_env ''u1'' food_world))) = [''exceeded'']"
    by (simp add: food_first_pass exceeded_alert_def)
  have a2: "map budget_alert.alert_type
     (budget_alerts (snd (check_budget_alerts march_env ''u1''
        (snd (check_budget_alerts march_env ''u1'' food_world))))) = [''exceeded'', ''warning'']"
    unfolding food_first_pass food_second_pass
    by (simp add: exceeded_alert_def warning_alert_def)
  from h1 h2 b c a1 a2 show ?thesis by (intro conjI)
qed

subsection \<open>The spend written back\<close>

text \<open>
  C3, as amended. After a pass for a user on a store with unique budget identifiers, each
  of the first 100 active budgets of that user (in store order) has \<^verbatim>\<open>current_spent\<close>
  equal to the sum of the amounts of the first 1000 expenses (in store order) that belong
  to the user, are of type \<^verbatim>\<open>expense\<close>, have the budget's category and a date string
  between the budget's start and end date inclusive; every other budget is unchanged.
  This holds for every pass, whatever the percentage and the alerts.
\<close>

theorem current_spent_written:
  assumes "distinct (map budget.id' (budgets w))"
  shows "fst (check_budget_alerts env uid w) = Inr () \<and>
         expenses (snd (check_budget_alerts env uid w)) = expenses w \<and>
         budgets (snd (check_budget_alerts env uid w)) =
           map (\<lambda>d. if d \<in> set (take 100 (filter (\<lambda>b. budget.user_id b = uid \<and> is_active b)
                                              (budgets w)))
                    then d\<lparr>budget.current_spent :=
                            sum_list (map expense.amount
                              (take 1000 (filter (matches_budget uid d) (expenses w))))\<rparr>
                    else d)
               (budgets w) \<and>
         (matches_budget uid b e \<longleftrightarrow>
            expense.user_id e = uid \<and> expense.category e = budget.category b \<and>
            expense.type e = ''expense'' \<and>
            budget.start_date b \<le> expense.date e \<and> expense.date e \<le> budget.end_date b)"
  using check_budget_alerts_budgets [OF assms, of env uid]
  by (simp add: active_budgets_def spent_def budget_expenses_def matches_budget_def)

theorem current_spent_written_witness:
  "distinct (map budget.id' (budgets food_world)) \<and>
   budgets (snd (check_budget_alerts march_env ''u1'' food_world)) =
     [food_budget\<lparr>budget.current_spent := 105\<rparr>]"
proof -
  have h1: "distinct (map budget.id' (budgets food_world))" by (simp add: food_world_def)
  from current_spent_written [OF h1, of march_env "''u1''"]
  have "budgets (snd (check_budget_alerts march_env ''u1'' food_world)) =
        [food_budget\<lparr>budget.current_spent := 105\<rparr>]"
    by (simp add: food_world_def food_budget_def dinner_def matches_budget_def)
  with h1 show ?thesis by (rule conjI)
qed

text \<open>
  C3, as stated, fails on the crowded store: after a pass, the first budget holds 1000
  and the budget at index 100 holds 0, while the matching expenses of each add up to 1001.
\<close>

theorem current_spent_truncated:
  "(let w' = snd (check_budget_alerts march_env ''u1'' crowded_world);
        b = budgets w' ! 0; c = budgets w' ! 100
    in budget.user_id b = ''u1'' \<and> is_active b \<and> budget.current_spent b = 1000 \<and>
       sum_list (map expense.amount
         (filter (matches_budget ''u1'' b) (expenses crowded_world))) = 1001 \<and>
       budget.user_id c = ''u1'' \<and> is_active c \<and> budget.current_spent c = 0 \<and>
       sum_list (map expense.amount
         (filter (matches_budget ''u1'' c) (expenses crowded_world))) = 1001)"
proof -
  let ?w' = "snd (check_budget_alerts march_env ''u1'' crowded_world)"
  have b: "budgets ?w' ! 0 = (nth_budget 0)\<lparr>budget.current_spent := 1000\<rparr>"
    by (simp add: crowded_budgets del: upt_rec_numeral)
  have c: "budgets ?w' ! 100 = nth_budget 100"
    by (simp add: crowded_budgets del: upt_rec_numeral)
  have fb: "sum_list (map expense.amount
         (filter (matches_budget ''u1'' ((nth_budget 0)\<lparr>budget.current_spent := 1000\<rparr>))
            (expenses crowded_world))) = 1001"
    by (simp add: crowded_full)
  have fc: "sum_list (map expense.amount
         (filter (matches_budget ''u1'' (nth_budget 100)) (expenses crowded_world))) = 1001"
    by (rule crowded_full)
  have f: "budget.user_id (nth_budget i) = ''u1''" "is_active (nth_budget i)"
    "budget.current_spent (nth_budget i) = 0" for i
    by (simp_all add: nth_budget_def food_budget_def)
  show ?thesis
    unfolding Let_def b c by (simp add: crowded_full f)
qed

end
